theory Spec2Isabelle
  imports Main
begin

section \<open>Shared vocabulary of the telemetry components\<close>

text \<open>
  The three telemetry collections. The list components, the upload form and the overview
  are written once per kind in the source with the same control flow; the model takes the
  kind as a parameter and keeps the per-kind differences (API function, fallback message,
  search field) as case distinctions on it.
\<close>

datatype kind = Traces | Metrics | Logs

text \<open>
  A value caught by a \<^verbatim>\<open>catch (err)\<close> clause: an \<^verbatim>\<open>Error\<close> instance carrying
  its \<^verbatim>\<open>message\<close>, or any other thrown value.
\<close>

datatype thrown = ErrorObj string | NonError

text \<open>\<^verbatim>\<open>err instanceof Error ? err.message : fallback\<close>\<close>

fun thrown_message :: "thrown \<Rightarrow> string \<Rightarrow> string" where
  "thrown_message (ErrorObj m) fallback = m"
| "thrown_message NonError fallback = fallback"

text \<open>\<^verbatim>\<open>s || undefined\<close> on a string: the empty string is falsy.\<close>

definition or_undefined :: "string \<Rightarrow> string option" where
  "or_undefined s = (if s = [] then None else Some s)"

text \<open>
  The parameter object handed to \<^verbatim>\<open>listTelemetryTracesApi\<close>,
  \<^verbatim>\<open>listTelemetryMetricsApi\<close> or \<^verbatim>\<open>listTelemetryLogsApi\<close> (\<open>rq_kind\<close> says
  which of the three is called). A property the caller leaves out is \<open>None\<close>.
\<close>

record list_request =
  rq_kind :: kind
  rq_organizationId :: string
  rq_skip :: "int option"
  rq_limit :: "int option"
  rq_tagIds :: "string option"
  rq_nameSearch :: "string option"
  rq_severity :: "string option"

text \<open>
  The resolved value of a list call: \<open>rs_items\<close> is the field \<^verbatim>\<open>traces\<close>,
  \<^verbatim>\<open>metrics\<close> or \<^verbatim>\<open>logs\<close> of the response, \<open>rs_total\<close> its \<^verbatim>\<open>total\<close>.
\<close>

record 'a list_response =
  rs_items :: "'a list"
  rs_total :: int
  rs_skip :: int
  rs_limit :: int

text \<open>
  The backend as seen by one call: the promise of a list call either rejects with a thrown
  value or resolves with a response.
\<close>

type_synonym 'a list_api = "list_request \<Rightarrow> thrown + 'a list_response"


section \<open>The paginated list components\<close>

text \<open>
  The \<^verbatim>\<open>useState\<close> cells of \<^verbatim>\<open>TelemetryTracesList\<close>, \<^verbatim>\<open>TelemetryMetricsList\<close>
  and \<^verbatim>\<open>TelemetryLogsList\<close>, with the prefix \<open>l_\<close>. \<open>l_items\<close> is \<^verbatim>\<open>traces\<close>,
  \<^verbatim>\<open>metrics\<close> or \<^verbatim>\<open>logs\<close>; \<open>l_search\<close> is \<^verbatim>\<open>nameSearch\<close> in the first
  two components and \<^verbatim>\<open>severityFilter\<close> in the third. JavaScript numbers are modelled
  as \<open>int\<close>: every value computed here is an integer far below \<open>2 ^ 53\<close>.
\<close>

record 'a controller =
  l_items :: "'a list"
  l_loading :: bool
  l_error :: "string option"
  l_total :: int
  l_skip :: int
  l_limit :: int
  l_tagFilter :: string
  l_search :: string

text \<open>The initial values given to \<^verbatim>\<open>useState\<close>.\<close>

definition initial_controller :: "'a controller" where
  "initial_controller =
     \<lparr>l_items = [], l_loading = True, l_error = None, l_total = 0, l_skip = 0,
      l_limit = 20, l_tagFilter = [], l_search = []\<rparr>"

text \<open>The fallback message of the \<^verbatim>\<open>catch\<close> clause of each component.\<close>

fun load_failed :: "kind \<Rightarrow> string" where
  "load_failed Traces = ''Failed to load traces''"
| "load_failed Metrics = ''Failed to load metrics''"
| "load_failed Logs = ''Failed to load logs''"

text \<open>
  \<^verbatim>\<open>fetchTraces\<close> / \<^verbatim>\<open>fetchMetrics\<close> / \<^verbatim>\<open>fetchLogs\<close> is a
  \<^verbatim>\<open>useCallback\<close> closure. The request it sends is built from the values of
  \<^verbatim>\<open>skip\<close>, \<^verbatim>\<open>limit\<close> and the filters that the render which created it closed
  over (\<open>snap\<close>); a \<^verbatim>\<open>setSkip\<close> issued earlier in the same event handler does not
  change them.
\<close>

definition fetch_request :: "kind \<Rightarrow> string \<Rightarrow> 'a controller \<Rightarrow> list_request" where
  "fetch_request k organizationId snap =
     \<lparr>rq_kind = k,
      rq_organizationId = organizationId,
      rq_skip = Some (l_skip snap),
      rq_limit = Some (l_limit snap),
      rq_tagIds = or_undefined (l_tagFilter snap),
      rq_nameSearch = (case k of Logs \<Rightarrow> None | _ \<Rightarrow> or_undefined (l_search snap)),
      rq_severity = (case k of Logs \<Rightarrow> or_undefined (l_search snap) | _ \<Rightarrow> None)\<rparr>"

text \<open>
  The part of the fetch after the \<^verbatim>\<open>await\<close>: on a resolved promise the items and
  the total are replaced, on a rejected one the error is set; \<^verbatim>\<open>finally\<close> clears
  \<^verbatim>\<open>loading\<close> on both paths. The setters write absolute values into the state at
  the time the promise settles.
\<close>

definition fetch_settle :: "kind \<Rightarrow> thrown + 'a list_response \<Rightarrow> 'a controller \<Rightarrow> 'a controller" where
  "fetch_settle k outcome st =
     (case outcome of
        Inr response \<Rightarrow>
          st\<lparr>l_items := rs_items response, l_total := rs_total response, l_loading := False\<rparr>
      | Inl err \<Rightarrow>
          st\<lparr>l_error := Some (thrown_message err (load_failed k)), l_loading := False\<rparr>)"

text \<open>
  One whole run of the fetch created by the render of \<open>st\<close>, with nothing else happening
  between the call and its completion: \<^verbatim>\<open>setLoading(true)\<close>, the list call, then the
  settlement.
\<close>

definition fetchList :: "'a list_api \<Rightarrow> kind \<Rightarrow> string \<Rightarrow> 'a controller \<Rightarrow> 'a controller" where
  "fetchList api k organizationId st =
     fetch_settle k (api (fetch_request k organizationId st)) (st\<lparr>l_loading := True\<rparr>)"

text \<open>
  The event handlers. Each returns the state after React has applied the queued setter
  calls, and the list requests the handler itself sent, in order. \<^verbatim>\<open>handleSearch\<close>
  queues \<^verbatim>\<open>setSkip(0)\<close> and then calls the fetch closure of the current render, which
  queues \<^verbatim>\<open>setLoading(true)\<close> and sends its request.
\<close>

definition handleSearch :: "kind \<Rightarrow> string \<Rightarrow> 'a controller \<Rightarrow> 'a controller \<times> list_request list" where
  "handleSearch k organizationId st =
     (st\<lparr>l_skip := 0, l_loading := True\<rparr>, [fetch_request k organizationId st])"

definition handlePreviousPage :: "'a controller \<Rightarrow> 'a controller \<times> list_request list" where
  "handlePreviousPage st =
     (if l_skip st > 0 then (st\<lparr>l_skip := max 0 (l_skip st - l_limit st)\<rparr>, [])
      else (st, []))"

definition handleNextPage :: "'a controller \<Rightarrow> 'a controller \<times> list_request list" where
  "handleNextPage st =
     (if l_skip st + l_limit st < l_total st then (st\<lparr>l_skip := l_skip st + l_limit st\<rparr>, [])
      else (st, []))"

text \<open>
  The dependency list of the \<^verbatim>\<open>useCallback\<close>, apart from the
  \<^verbatim>\<open>organizationId\<close> prop, which no handler changes:
  \<^verbatim>\<open>[organizationId, skip, limit, tagFilter, nameSearch]\<close>.
\<close>

definition fetch_deps :: "'a controller \<Rightarrow> int \<times> int \<times> string \<times> string" where
  "fetch_deps st = (l_skip st, l_limit st, l_tagFilter st, l_search st)"

text \<open>
  One user event: the handler runs against the current render, React re-renders with the
  new state, and \<^verbatim>\<open>useEffect(() => { fetchTraces(); }, [fetchTraces])\<close> runs when
  the fetch closure has been re-created, that is when one of its dependencies changed. The
  effect's fetch belongs to the new render, so its request carries the new values.
\<close>

definition dispatch ::
  "kind \<Rightarrow> string \<Rightarrow> ('a controller \<Rightarrow> 'a controller \<times> list_request list) \<Rightarrow>
   'a controller \<Rightarrow> 'a controller \<times> list_request list" where
  "dispatch k organizationId handler st =
     (case handler st of (st', sent) \<Rightarrow>
        if fetch_deps st' \<noteq> fetch_deps st
        then (st'\<lparr>l_loading := True\<rparr>, sent @ [fetch_request k organizationId st'])
        else (st', sent))"

definition search :: "kind \<Rightarrow> string \<Rightarrow> 'a controller \<Rightarrow> 'a controller \<times> list_request list" where
  "search k organizationId = dispatch k organizationId (handleSearch k organizationId)"

definition previousPage :: "kind \<Rightarrow> string \<Rightarrow> 'a controller \<Rightarrow> 'a controller \<times> list_request list" where
  "previousPage k organizationId = dispatch k organizationId handlePreviousPage"

definition nextPage :: "kind \<Rightarrow> string \<Rightarrow> 'a controller \<Rightarrow> 'a controller \<times> list_request list" where
  "nextPage k organizationId = dispatch k organizationId handleNextPage"

text \<open>A sequence of clicks on the two pagination buttons, with no response arriving in between.\<close>

datatype page_click = Next | Previous

fun click :: "kind \<Rightarrow> string \<Rightarrow> page_click \<Rightarrow> 'a controller \<Rightarrow> 'a controller" where
  "click k organizationId Next st = fst (nextPage k organizationId st)"
| "click k organizationId Previous st = fst (previousPage k organizationId st)"

fun clicks :: "kind \<Rightarrow> string \<Rightarrow> page_click list \<Rightarrow> 'a controller \<Rightarrow> 'a controller" where
  "clicks k organizationId [] st = st"
| "clicks k organizationId (c # cs) st = clicks k organizationId cs (click k organizationId c st)"


section \<open>The upload form\<close>

text \<open>
  The value returned by \<^verbatim>\<open>JSON.parse\<close>. The upload code only asks whether the value
  is an array, so the representation of numbers is left open as the type \<open>'n\<close>.
\<close>

datatype 'n json =
    JNull
  | JBool bool
  | JNumber 'n
  | JString string
  | JArray "'n json list"
  | JObject "(string \<times> 'n json) list"

text \<open>
  \<^verbatim>\<open>JSON.parse\<close> is a parameter of the model: it either throws a
  \<^verbatim>\<open>SyntaxError\<close> (an \<^verbatim>\<open>Error\<close> instance, given by its message) or returns a
  value.
\<close>

type_synonym 'n json_parse = "string \<Rightarrow> string + 'n json"

text \<open>\<^verbatim>\<open>Array.isArray(v) ? v : [v]\<close>\<close>

fun isArray :: "'n json \<Rightarrow> bool" where
  "isArray (JArray xs) = True"
| "isArray _ = False"

fun elements :: "'n json \<Rightarrow> 'n json list" where
  "elements (JArray xs) = xs"
| "elements _ = []"

definition as_batch :: "'n json \<Rightarrow> 'n json list" where
  "as_batch v = (if isArray v then elements v else [v])"

text \<open>
  The parameter object handed to \<^verbatim>\<open>uploadTelemetryTracesApi\<close>,
  \<^verbatim>\<open>uploadTelemetryMetricsApi\<close> or \<^verbatim>\<open>uploadTelemetryLogsApi\<close>; \<open>up_items\<close> is
  its field \<^verbatim>\<open>traces\<close>, \<^verbatim>\<open>metrics\<close> or \<^verbatim>\<open>logs\<close>. The promise resolves
  with the list of created summaries (the field of the same name in the result) or rejects.
\<close>

record 'n upload_request =
  up_kind :: kind
  up_organizationId :: string
  up_items :: "'n json list"

type_synonym ('n, 'r) upload_api = "'n upload_request \<Rightarrow> thrown + 'r list"

text \<open>The \<^verbatim>\<open>useState\<close> cells of \<^verbatim>\<open>TelemetryUpload\<close>, with the prefix \<open>u_\<close>.\<close>

record upload_form =
  u_activeTab :: kind
  u_loading :: bool
  u_error :: "string option"
  u_success :: "string option"
  u_tracesData :: string
  u_metricsData :: string
  u_logsData :: string

definition initial_upload_form :: upload_form where
  "initial_upload_form =
     \<lparr>u_activeTab = Traces, u_loading = False, u_error = None, u_success = None,
      u_tracesData = [], u_metricsData = [], u_logsData = []\<rparr>"

text \<open>
  The number inside a template literal: the decimal digits of an array length.
\<close>

fun number_to_string :: "nat \<Rightarrow> string" where
  "number_to_string n =
     (if n < 10 then [''0123456789'' ! n]
      else number_to_string (n div 10) @ [''0123456789'' ! (n mod 10)])"

declare number_to_string.simps [simp del]

text \<open>
  What \<^verbatim>\<open>handleUpload\<close> does, statement by statement: the setter calls and the upload
  call, in program order.
\<close>

datatype 'n upload_effect =
    SetLoading bool
  | SetError "string option"
  | SetSuccess "string option"
  | SetTracesData string
  | SetMetricsData string
  | SetLogsData string
  | Upload "'n upload_request"

text \<open>The \<^verbatim>\<open>catch\<close> clause followed by \<^verbatim>\<open>finally\<close>.\<close>

definition upload_catch :: "thrown \<Rightarrow> 'n upload_effect list" where
  "upload_catch err = [SetError (Some (thrown_message err ''Upload failed'')), SetLoading False]"

text \<open>
  The body of \<^verbatim>\<open>handleUpload\<close> as run from the render of \<open>st\<close>: the three resets,
  then the branch of the active tab. A throwing \<^verbatim>\<open>JSON.parse\<close> or a rejected upload
  leaves the \<^verbatim>\<open>try\<close> block at that point.
\<close>

definition handleUpload_effects ::
  "'n json_parse \<Rightarrow> ('n, 'r) upload_api \<Rightarrow> string \<Rightarrow> upload_form \<Rightarrow> 'n upload_effect list" where
  "handleUpload_effects parse api organizationId st =
     [SetLoading True, SetError None, SetSuccess None] @
     (case u_activeTab st of
        Traces \<Rightarrow>
          (case parse (u_tracesData st) of
             Inl m \<Rightarrow> upload_catch (ErrorObj m)
           | Inr traces \<Rightarrow>
               (let rq = \<lparr>up_kind = Traces, up_organizationId = organizationId,
                          up_items = as_batch traces\<rparr>
                in Upload rq #
                   (case api rq of
                      Inl err \<Rightarrow> upload_catch err
                    | Inr result \<Rightarrow>
                        [SetSuccess (Some (''Successfully uploaded '' @
                           number_to_string (length result) @ '' trace(s)'')),
                         SetTracesData [],
                         SetLoading False])))
      | Metrics \<Rightarrow>
          (case parse (u_metricsData st) of
             Inl m \<Rightarrow> upload_catch (ErrorObj m)
           | Inr metrics \<Rightarrow>
               (let rq = \<lparr>up_kind = Metrics, up_organizationId = organizationId,
                          up_items = as_batch metrics\<rparr>
                in Upload rq #
                   (case api rq of
                      Inl err \<Rightarrow> upload_catch err
                    | Inr result \<Rightarrow>
                        [SetSuccess (Some (''Successfully uploaded '' @
                           number_to_string (length result) @ '' metric(s)'')),
                         SetMetricsData [],
                         SetLoading False])))
      | Logs \<Rightarrow>
          (case parse (u_logsData st) of
             Inl m \<Rightarrow> upload_catch (ErrorObj m)
           | Inr logs \<Rightarrow>
               (let rq = \<lparr>up_kind = Logs, up_organizationId = organizationId,
                          up_items = as_batch logs\<rparr>
                in Upload rq #
                   (case api rq of
                      Inl err \<Rightarrow> upload_catch err
                    | Inr result \<Rightarrow>
                        [SetSuccess (Some (''Successfully uploaded '' @
                           number_to_string (length result) @ '' log(s)'')),
                         SetLogsData [],
                         SetLoading False]))))"

text \<open>The effect of one statement on the form state; the upload call changes none of it.\<close>

fun apply_effect :: "upload_form \<Rightarrow> 'n upload_effect \<Rightarrow> upload_form" where
  "apply_effect st (SetLoading b) = st\<lparr>u_loading := b\<rparr>"
| "apply_effect st (SetError e) = st\<lparr>u_error := e\<rparr>"
| "apply_effect st (SetSuccess s) = st\<lparr>u_success := s\<rparr>"
| "apply_effect st (SetTracesData d) = st\<lparr>u_tracesData := d\<rparr>"
| "apply_effect st (SetMetricsData d) = st\<lparr>u_metricsData := d\<rparr>"
| "apply_effect st (SetLogsData d) = st\<lparr>u_logsData := d\<rparr>"
| "apply_effect st (Upload rq) = st"

fun sent_uploads :: "'n upload_effect list \<Rightarrow> 'n upload_request list" where
  "sent_uploads [] = []"
| "sent_uploads (Upload rq # es) = rq # sent_uploads es"
| "sent_uploads (_ # es) = sent_uploads es"

text \<open>
  One submit with nothing else happening until it completes: the form state afterwards and
  the upload requests handed to the API client.
\<close>

definition handleUpload ::
  "'n json_parse \<Rightarrow> ('n, 'r) upload_api \<Rightarrow> string \<Rightarrow> upload_form \<Rightarrow>
   upload_form \<times> 'n upload_request list" where
  "handleUpload parse api organizationId st =
     (let es = handleUpload_effects parse api organizationId st
      in (foldl apply_effect st es, sent_uploads es))"

text \<open>\<^verbatim>\<open>getCurrentData\<close>: the buffer of the active tab.\<close>

definition getCurrentData :: "upload_form \<Rightarrow> string" where
  "getCurrentData st =
     (case u_activeTab st of
        Traces \<Rightarrow> u_tracesData st
      | Metrics \<Rightarrow> u_metricsData st
      | Logs \<Rightarrow> u_logsData st)"


section \<open>The overview\<close>

text \<open>The \<^verbatim>\<open>useState\<close> cells of \<^verbatim>\<open>TelemetryOverview\<close>, with the prefix \<open>o_\<close>.\<close>

record ('t, 'm, 'l) overview =
  o_tracesData :: "'t list_response option"
  o_metricsData :: "'m list_response option"
  o_logsData :: "'l list_response option"
  o_loading :: bool
  o_error :: "string option"

definition initial_overview :: "('t, 'm, 'l) overview" where
  "initial_overview =
     \<lparr>o_tracesData = None, o_metricsData = None, o_logsData = None,
      o_loading = True, o_error = None\<rparr>"

text \<open>
  A promise that has settled: the time at which it did, and its outcome.
  \<^verbatim>\<open>Promise.all\<close> over three promises resolves with the three values when all of them
  resolve, and otherwise rejects with the reason of the promise that rejected first (the
  earlier array position when two reject at the same time). The last case of
  \<open>promise_all3\<close> only completes the case distinction: with no rejection all three
  outcomes are values.
\<close>

type_synonym 'a settled = "nat \<times> (thrown + 'a)"

fun rejection :: "'a settled \<Rightarrow> (nat \<times> thrown) list" where
  "rejection (t, Inl err) = [(t, err)]"
| "rejection (t, Inr v) = []"

fun first_rejection :: "(nat \<times> thrown) \<Rightarrow> (nat \<times> thrown) list \<Rightarrow> thrown" where
  "first_rejection (t, err) [] = err"
| "first_rejection (t, err) ((t', err') # rs) =
     (if t' < t then first_rejection (t', err') rs else first_rejection (t, err) rs)"

definition promise_all3 ::
  "'a settled \<Rightarrow> 'b settled \<Rightarrow> 'c settled \<Rightarrow> thrown + ('a \<times> 'b \<times> 'c)" where
  "promise_all3 p1 p2 p3 =
     (case rejection p1 @ rejection p2 @ rejection p3 of
        r # rs \<Rightarrow> Inl (first_rejection r rs)
      | [] \<Rightarrow>
          (case (snd p1, snd p2, snd p3) of
             (Inr a, Inr b, Inr c) \<Rightarrow> Inr (a, b, c)
           | _ \<Rightarrow> Inl NonError))"

text \<open>The parameter object \<^verbatim>\<open>{ organizationId, limit: 5 }\<close> of the three overview calls.\<close>

definition overview_request :: "kind \<Rightarrow> string \<Rightarrow> list_request" where
  "overview_request k organizationId =
     \<lparr>rq_kind = k, rq_organizationId = organizationId, rq_skip = None, rq_limit = Some 5,
      rq_tagIds = None, rq_nameSearch = None, rq_severity = None\<rparr>"

text \<open>
  \<^verbatim>\<open>fetchOverviewData\<close>, run by the effect of \<^verbatim>\<open>TelemetryOverview\<close>: the state
  afterwards and the list requests sent, in the order of the array given to
  \<^verbatim>\<open>Promise.all\<close>.
\<close>

definition fetchOverviewData ::
  "(list_request \<Rightarrow> 't list_response settled) \<Rightarrow>
   (list_request \<Rightarrow> 'm list_response settled) \<Rightarrow>
   (list_request \<Rightarrow> 'l list_response settled) \<Rightarrow>
   string \<Rightarrow> ('t, 'm, 'l) overview \<Rightarrow> ('t, 'm, 'l) overview \<times> list_request list" where
  "fetchOverviewData listTraces listMetrics listLogs organizationId st =
     (let sent = [overview_request Traces organizationId,
                  overview_request Metrics organizationId,
                  overview_request Logs organizationId]
      in case promise_all3 (listTraces (overview_request Traces organizationId))
                           (listMetrics (overview_request Metrics organizationId))
                           (listLogs (overview_request Logs organizationId)) of
           Inr (traces, metrics, logs) \<Rightarrow>
             (st\<lparr>o_loading := False, o_tracesData := Some traces,
                 o_metricsData := Some metrics, o_logsData := Some logs\<rparr>, sent)
         | Inl err \<Rightarrow>
             (st\<lparr>o_loading := False,
                 o_error := Some (thrown_message err ''Failed to load telemetry data'')\<rparr>,
              sent))"

text \<open>
  Modelled from the spec: the API client (\<^verbatim>\<open>@/utils/api\<close>) is not among the sources;
  its contract gives \<^verbatim>\<open>skip\<close> the default 0 when the caller leaves it out.
\<close>

definition effective_skip :: "list_request \<Rightarrow> int" where
  "effective_skip rq = (case rq_skip rq of None \<Rightarrow> 0 | Some s \<Rightarrow> s)"



section \<open>The invariant of the page cursor\<close>

text \<open>
  What holds of the cursor after any number of clicks that start at \<^verbatim>\<open>skip = 0\<close>
  with the total \<open>tot\<close>: the page size is 20, and the cursor is a non-negative multiple of
  it that is either 0 or below the total.
\<close>

definition page_inv :: "int \<Rightarrow> 'a controller \<Rightarrow> bool" where
  "page_inv tot st \<longleftrightarrow>
     l_limit st = 20 \<and> l_total st = tot \<and> 0 \<le> l_skip st \<and> 20 dvd l_skip st \<and>
     (l_skip st = 0 \<or> l_skip st < tot)"


section \<open>Properties of the list components\<close>

lemma fetch_settle_rejected:
  "fetch_settle k (Inl err) st =
     st\<lparr>l_error := Some (thrown_message err (load_failed k)), l_loading := False\<rparr>"
  by (simp add: fetch_settle_def)

lemma fetch_settle_resolved:
  "fetch_settle k (Inr response) st =
     st\<lparr>l_items := rs_items response, l_total := rs_total response, l_loading := False\<rparr>"
  by (simp add: fetch_settle_def)

lemma fetchList_rejected:
  "api (fetch_request k org st) = Inl err \<Longrightarrow>
   fetchList api k org st =
     st\<lparr>l_error := Some (thrown_message err (load_failed k)), l_loading := False\<rparr>"
  by (simp add: fetchList_def fetch_settle_def)

lemma fetchList_resolved:
  "api (fetch_request k org st) = Inr response \<Longrightarrow>
   fetchList api k org st =
     st\<lparr>l_items := rs_items response, l_total := rs_total response, l_loading := False\<rparr>"
  by (simp add: fetchList_def fetch_settle_def)

lemma click_page_inv: "page_inv tot st \<Longrightarrow> page_inv tot (click k org c st)"
  by (cases c)
     (auto simp: page_inv_def nextPage_def previousPage_def dispatch_def handleNextPage_def
        handlePreviousPage_def fetch_deps_def max_def split: prod.splits if_splits)

lemma clicks_page_inv: "page_inv tot st \<Longrightarrow> page_inv tot (clicks k org cs st)"
  by (induction cs arbitrary: st) (simp_all add: click_page_inv del: click.simps)

text \<open>
  C1. The Search handler sets \<^verbatim>\<open>skip\<close> to 0, but the fetch it calls is the closure
  of the render in which the button was clicked, so the request that call sends still
  carries the old \<^verbatim>\<open>skip\<close>. From a state with \<^verbatim>\<open>skip > 0\<close> the event sends
  two list requests: first one with the old \<^verbatim>\<open>skip\<close>, then, from the effect that
  follows the re-render, one with \<^verbatim>\<open>skip = 0\<close>.
\<close>

theorem search_request_skip:
  assumes "0 < l_skip st"
  shows "l_skip (fst (search k org st)) = 0 \<and>
         map rq_skip (snd (search k org st)) = [Some (l_skip st), Some 0] \<and>
         snd (search k org st) =
           [fetch_request k org st, fetch_request k org (st\<lparr>l_skip := 0\<rparr>)]"
  using assms
  by (cases k) (simp_all add: search_def dispatch_def handleSearch_def fetch_deps_def fetch_request_def)

theorem search_request_skip_witness:
  "0 < l_skip (initial_controller\<lparr>l_total := 45, l_skip := 20\<rparr> :: nat controller) \<and>
   l_skip (fst (search Traces ''org''
      (initial_controller\<lparr>l_total := 45, l_skip := 20\<rparr> :: nat controller))) = 0 \<and>
   map rq_skip (snd (search Traces ''org''
      (initial_controller\<lparr>l_total := 45, l_skip := 20\<rparr> :: nat controller))) = [Some 20, Some 0]"
proof -
  have h: "0 < l_skip (initial_controller\<lparr>l_total := 45, l_skip := 20\<rparr> :: nat controller)"
    by simp
  have s: "l_skip (initial_controller\<lparr>l_total := 45, l_skip := 20\<rparr> :: nat controller) = 20"
    by simp
  from search_request_skip [OF h, of Traces "''org''"] h s show ?thesis
    by (simp add: fetch_request_def)
qed

text \<open>
  C2. Pagination bounds. Starting from \<^verbatim>\<open>skip = 0\<close> with the page size 20 and a total
  that is not negative, after any sequence of clicks on Next and Previous the cursor is a
  non-negative multiple of the page size, and it is below the total when the total is
  positive. In every such state Next changes nothing and sends nothing when
  \<^verbatim>\<open>skip + limit >= total\<close> and advances by one page otherwise; Previous changes
  nothing and sends nothing when \<^verbatim>\<open>skip = 0\<close>, otherwise it yields
  \<^verbatim>\<open>max(0, skip - limit)\<close>, and its result is never negative.
\<close>

theorem pagination_bounds:
  assumes "l_skip st = 0" and "l_limit st = 20" and "0 \<le> l_total st"
  shows "let s = clicks k org cs st in
           0 \<le> l_skip s \<and> l_limit s = 20 \<and> l_limit s dvd l_skip s \<and> l_total s = l_total st \<and>
           (0 < l_total st \<longrightarrow> l_skip s < l_total st) \<and>
           (l_total s \<le> l_skip s + l_limit s \<longrightarrow> nextPage k org s = (s, [])) \<and>
           (l_skip s + l_limit s < l_total s \<longrightarrow>
              l_skip (fst (nextPage k org s)) = l_skip s + l_limit s) \<and>
           (l_skip s = 0 \<longrightarrow> previousPage k org s = (s, [])) \<and>
           (l_skip s \<noteq> 0 \<longrightarrow>
              l_skip (fst (previousPage k org s)) = max 0 (l_skip s - l_limit s)) \<and>
           0 \<le> l_skip (fst (previousPage k org s))"
proof -
  from assms have "page_inv (l_total st) st"
    by (simp add: page_inv_def)
  then have inv: "page_inv (l_total st) (clicks k org cs st)"
    by (rule clicks_page_inv)
  then show ?thesis
    by (auto simp: Let_def page_inv_def nextPage_def previousPage_def dispatch_def
          handleNextPage_def handlePreviousPage_def fetch_deps_def max_def split: prod.splits)
qed

theorem pagination_bounds_witness:
  "l_skip (initial_controller\<lparr>l_total := 45\<rparr> :: nat controller) = 0 \<and>
   l_limit (initial_controller\<lparr>l_total := 45\<rparr> :: nat controller) = 20 \<and>
   0 \<le> l_total (initial_controller\<lparr>l_total := 45\<rparr> :: nat controller) \<and>
   l_skip (clicks Traces ''org'' [Next, Next, Next, Previous, Next]
     (initial_controller\<lparr>l_total := 45\<rparr> :: nat controller)) = 40 \<and>
   (let s = clicks Traces ''org'' [Next, Next, Next, Previous, Next]
              (initial_controller\<lparr>l_total := 45\<rparr> :: nat controller) in
      0 \<le> l_skip s \<and> l_limit s = 20 \<and> l_limit s dvd l_skip s \<and>
      l_total s = l_total (initial_controller\<lparr>l_total := 45\<rparr> :: nat controller) \<and>
      (0 < l_total (initial_controller\<lparr>l_total := 45\<rparr> :: nat controller) \<longrightarrow>
         l_skip s < l_total (initial_controller\<lparr>l_total := 45\<rparr> :: nat controller)) \<and>
      (l_total s \<le> l_skip s + l_limit s \<longrightarrow> nextPage Traces ''org'' s = (s, [])) \<and>
      (l_skip s + l_limit s < l_total s \<longrightarrow>
         l_skip (fst (nextPage Traces ''org'' s)) = l_skip s + l_limit s) \<and>
      (l_skip s = 0 \<longrightarrow> previousPage Traces ''org'' s = (s, [])) \<and>
      (l_skip s \<noteq> 0 \<longrightarrow>
         l_skip (fst (previousPage Traces ''org'' s)) = max 0 (l_skip s - l_limit s)) \<and>
      0 \<le> l_skip (fst (previousPage Traces ''org'' s)))"
proof -
  have h1: "l_skip (initial_controller\<lparr>l_total := 45\<rparr> :: nat controller) = 0"
    by (simp add: initial_controller_def)
  have h2: "l_limit (initial_controller\<lparr>l_total := 45\<rparr> :: nat controller) = 20"
    by (simp add: initial_controller_def)
  have h3: "0 \<le> l_total (initial_controller\<lparr>l_total := 45\<rparr> :: nat controller)"
    by simp
  have v: "l_skip (clicks Traces ''org'' [Next, Next, Next, Previous, Next]
     (initial_controller\<lparr>l_total := 45\<rparr> :: nat controller)) = 40"
    by (simp add: initial_controller_def nextPage_def previousPage_def dispatch_def
          handleNextPage_def handlePreviousPage_def fetch_deps_def)
  show ?thesis
    by (intro conjI h1 h2 h3 v pagination_bounds [OF h1 h2 h3])
qed

text \<open>
  C3. Stale on error. A fetch always ends with \<^verbatim>\<open>loading\<close> false, whether the list
  call resolves or rejects. When it rejects, the items and the total keep the values they
  had before the call and the error is set to the message of the thrown \<^verbatim>\<open>Error\<close>
  (to the component's fallback text for any other thrown value).
\<close>

theorem refresh_failure_keeps_items:
  "l_loading (fetchList api k org st) = False \<and>
   (api (fetch_request k org st) = Inl err \<longrightarrow>
      l_items (fetchList api k org st) = l_items st \<and>
      l_total (fetchList api k org st) = l_total st \<and>
      l_error (fetchList api k org st) = Some (thrown_message err (load_failed k)) \<and>
      (\<forall>m. err = ErrorObj m \<longrightarrow> l_error (fetchList api k org st) = Some m))"
  by (cases "api (fetch_request k org st)") (simp_all add: fetchList_def fetch_settle_def)

theorem refresh_failure_keeps_items_witness:
  "l_loading (fetchList (\<lambda>rq. Inl (ErrorObj ''Network Error'')) Logs ''org''
      (initial_controller\<lparr>l_items := [1, 2, 3::nat], l_total := 3\<rparr>)) = False \<and>
   l_items (fetchList (\<lambda>rq. Inl (ErrorObj ''Network Error'')) Logs ''org''
      (initial_controller\<lparr>l_items := [1, 2, 3::nat], l_total := 3\<rparr>)) = [1, 2, 3] \<and>
   l_total (fetchList (\<lambda>rq. Inl (ErrorObj ''Network Error'')) Logs ''org''
      (initial_controller\<lparr>l_items := [1, 2, 3::nat], l_total := 3\<rparr>)) = 3 \<and>
   l_error (fetchList (\<lambda>rq. Inl (ErrorObj ''Network Error'')) Logs ''org''
      (initial_controller\<lparr>l_items := [1, 2, 3::nat], l_total := 3\<rparr>)) = Some ''Network Error''"
  using refresh_failure_keeps_items [of "\<lambda>rq. Inl (ErrorObj ''Network Error'')" Logs "''org''"
      "initial_controller\<lparr>l_items := [1, 2, 3::nat], l_total := 3\<rparr>" "ErrorObj ''Network Error''"]
  by (simp add: initial_controller_def)

text \<open>
  C9. A fetch whose list call resolves replaces the items and the total and leaves the
  error as it was; no path of the fetch sets it back to null. So after a rejected fetch
  followed by a resolved one the message of the first is still in place, next to the
  fresh items.
\<close>

theorem refresh_success_keeps_error:
  "(api (fetch_request k org st) = Inr response \<longrightarrow>
      l_error (fetchList api k org st) = l_error st \<and>
      l_items (fetchList api k org st) = rs_items response \<and>
      l_total (fetchList api k org st) = rs_total response) \<and>
   (api1 (fetch_request k org st) = Inl err \<and>
    api2 (fetch_request k org (fetchList api1 k org st)) = Inr response \<longrightarrow>
      l_error (fetchList api2 k org (fetchList api1 k org st)) =
        Some (thrown_message err (load_failed k)) \<and>
      l_items (fetchList api2 k org (fetchList api1 k org st)) = rs_items response \<and>
      l_total (fetchList api2 k org (fetchList api1 k org st)) = rs_total response)"
proof (intro conjI impI)
  assume "api (fetch_request k org st) = Inr response"
  then have eq: "fetchList api k org st =
      st\<lparr>l_items := rs_items response, l_total := rs_total response, l_loading := False\<rparr>"
    by (rule fetchList_resolved)
  show "l_error (fetchList api k org st) = l_error st"
    and "l_items (fetchList api k org st) = rs_items response"
    and "l_total (fetchList api k org st) = rs_total response"
    by (simp_all add: eq)
next
  assume a: "api1 (fetch_request k org st) = Inl err \<and>
    api2 (fetch_request k org (fetchList api1 k org st)) = Inr response"
  then have e1: "fetchList api1 k org st =
      st\<lparr>l_error := Some (thrown_message err (load_failed k)), l_loading := False\<rparr>"
    by (simp add: fetchList_rejected)
  from a have e2: "fetchList api2 k org (fetchList api1 k org st) =
      (fetchList api1 k org st)\<lparr>l_items := rs_items response, l_total := rs_total response,
         l_loading := False\<rparr>"
    by (simp add: fetchList_resolved)
  show "l_error (fetchList api2 k org (fetchList api1 k org st)) =
        Some (thrown_message err (load_failed k))"
    and "l_items (fetchList api2 k org (fetchList api1 k org st)) = rs_items response"
    and "l_total (fetchList api2 k org (fetchList api1 k org st)) = rs_total response"
    unfolding e2 by (simp_all add: e1)
qed

theorem refresh_success_keeps_error_witness:
  "l_error (fetchList (\<lambda>rq. Inr \<lparr>rs_items = [7, 8::nat], rs_total = 2, rs_skip = 0, rs_limit = 20\<rparr>)
      Metrics ''org'' (initial_controller\<lparr>l_error := Some ''Network Error''\<rparr>)) =
     Some ''Network Error'' \<and>
   l_items (fetchList (\<lambda>rq. Inr \<lparr>rs_items = [7, 8::nat], rs_total = 2, rs_skip = 0, rs_limit = 20\<rparr>)
      Metrics ''org'' (initial_controller\<lparr>l_error := Some ''Network Error''\<rparr>)) = [7, 8] \<and>
   l_total (fetchList (\<lambda>rq. Inr \<lparr>rs_items = [7, 8::nat], rs_total = 2, rs_skip = 0, rs_limit = 20\<rparr>)
      Metrics ''org'' (initial_controller\<lparr>l_error := Some ''Network Error''\<rparr>)) = 2"
proof -
  have h: "(\<lambda>rq. Inr \<lparr>rs_items = [7, 8::nat], rs_total = 2, rs_skip = 0, rs_limit = 20\<rparr> :: thrown + nat list_response)
      (fetch_request Metrics ''org'' (initial_controller\<lparr>l_error := Some ''Network Error''\<rparr>)) =
      Inr \<lparr>rs_items = [7, 8::nat], rs_total = 2, rs_skip = 0, rs_limit = 20\<rparr>"
    by simp
  from refresh_success_keeps_error
    [of "\<lambda>rq. Inr \<lparr>rs_items = [7, 8::nat], rs_total = 2, rs_skip = 0, rs_limit = 20\<rparr>"
        Metrics "''org''" "initial_controller\<lparr>l_error := Some ''Network Error''\<rparr>"
        "\<lparr>rs_items = [7, 8::nat], rs_total = 2, rs_skip = 0, rs_limit = 20\<rparr>"] h
  show ?thesis
    by (simp add: initial_controller_def)
qed


section \<open>Properties of the upload form\<close>

lemma handleUpload_parse_error:
  assumes "parse (getCurrentData st) = Inl m"
  shows "handleUpload parse api org st =
           (st\<lparr>u_loading := False, u_error := Some m, u_success := None\<rparr>, [])"
  using assms
  by (cases "u_activeTab st")
     (simp_all add: handleUpload_def handleUpload_effects_def getCurrentData_def upload_catch_def)

lemma handleUpload_rejected:
  assumes "parse (getCurrentData st) = Inr v"
    and "api \<lparr>up_kind = u_activeTab st, up_organizationId = org, up_items = as_batch v\<rparr> = Inl err"
  shows "handleUpload parse api org st =
           (st\<lparr>u_loading := False, u_error := Some (thrown_message err ''Upload failed''),
               u_success := None\<rparr>,
            [\<lparr>up_kind = u_activeTab st, up_organizationId = org, up_items = as_batch v\<rparr>])"
  using assms
  by (cases "u_activeTab st")
     (simp_all add: handleUpload_def handleUpload_effects_def getCurrentData_def upload_catch_def)

lemma handleUpload_resolved:
  assumes "parse (getCurrentData st) = Inr v"
    and "api \<lparr>up_kind = u_activeTab st, up_organizationId = org, up_items = as_batch v\<rparr> = Inr result"
  shows "handleUpload parse api org st =
           ((case u_activeTab st of
               Traces \<Rightarrow>
                 st\<lparr>u_loading := False, u_error := None,
                    u_success := Some (''Successfully uploaded '' @
                      number_to_string (length result) @ '' trace(s)''),
                    u_tracesData := []\<rparr>
             | Metrics \<Rightarrow>
                 st\<lparr>u_loading := False, u_error := None,
                    u_success := Some (''Successfully uploaded '' @
                      number_to_string (length result) @ '' metric(s)''),
                    u_metricsData := []\<rparr>
             | Logs \<Rightarrow>
                 st\<lparr>u_loading := False, u_error := None,
                    u_success := Some (''Successfully uploaded '' @
                      number_to_string (length result) @ '' log(s)''),
                    u_logsData := []\<rparr>),
            [\<lparr>up_kind = u_activeTab st, up_organizationId = org, up_items = as_batch v\<rparr>])"
  using assms
  by (cases "u_activeTab st")
     (simp_all add: handleUpload_def handleUpload_effects_def getCurrentData_def)

lemma as_batch_simps:
  "as_batch (JArray xs) = xs"
  "as_batch (JObject fs) = [JObject fs]"
  "as_batch JNull = [JNull]"
  "as_batch (JBool b) = [JBool b]"
  "as_batch (JNumber n) = [JNumber n]"
  "as_batch (JString s) = [JString s]"
  by (simp_all add: as_batch_def)

lemma sent_uploads_cases:
  "snd (handleUpload parse api org st) =
     (case parse (getCurrentData st) of
        Inl m \<Rightarrow> []
      | Inr v \<Rightarrow> [\<lparr>up_kind = u_activeTab st, up_organizationId = org, up_items = as_batch v\<rparr>])"
proof (cases "parse (getCurrentData st)")
  case (Inl m)
  then show ?thesis by (simp add: handleUpload_parse_error)
next
  case (Inr v)
  then show ?thesis
    by (cases "api \<lparr>up_kind = u_activeTab st, up_organizationId = org, up_items = as_batch v\<rparr>")
       (simp_all add: handleUpload_rejected handleUpload_resolved)
qed

text \<open>
  C4. Array normalisation. When the buffer of the active tab parses, the submit sends
  exactly one upload request, for the active kind. Its batch is the parsed array itself,
  element for element and in the same order, when the parsed value is an array, and the
  one-element batch holding the parsed value otherwise; in particular a single object is
  sent as a batch of exactly one item.
\<close>

theorem upload_array_normalization:
  assumes "parse (getCurrentData st) = Inr v"
  shows "snd (handleUpload parse api org st) =
           [\<lparr>up_kind = u_activeTab st, up_organizationId = org,
             up_items = (case v of JArray xs \<Rightarrow> xs | _ \<Rightarrow> [v])\<rparr>] \<and>
         (\<forall>fs. v = JObject fs \<longrightarrow>
            map up_items (snd (handleUpload parse api org st)) = [[JObject fs]]) \<and>
         (\<forall>xs. v = JArray xs \<longrightarrow>
            map up_items (snd (handleUpload parse api org st)) = [xs])"
  using assms by (cases v) (simp_all add: sent_uploads_cases as_batch_simps)

theorem upload_array_normalization_witness:
  "map up_items (snd (handleUpload
      (\<lambda>s. Inr (JObject [(''name'', JString ''x'')]) :: string + int json)
      (\<lambda>rq. Inr (map (\<lambda>item. 0::nat) (up_items rq))) ''org''
      (initial_upload_form\<lparr>u_activeTab := Metrics, u_metricsData := ''{..}''\<rparr>))) =
     [[JObject [(''name'', JString ''x'')]]] \<and>
   map up_items (snd (handleUpload
      (\<lambda>s. Inr (JArray [JObject [(''name'', JString ''a'')], JObject [(''name'', JString ''b'')]])
         :: string + int json)
      (\<lambda>rq. Inr (map (\<lambda>item. 0::nat) (up_items rq))) ''org''
      (initial_upload_form\<lparr>u_activeTab := Metrics, u_metricsData := ''[..]''\<rparr>))) =
     [[JObject [(''name'', JString ''a'')], JObject [(''name'', JString ''b'')]]]"
proof -
  have h1: "(\<lambda>s. Inr (JObject [(''name'', JString ''x'')]) :: string + int json)
      (getCurrentData (initial_upload_form\<lparr>u_activeTab := Metrics, u_metricsData := ''{..}''\<rparr>)) =
      Inr (JObject [(''name'', JString ''x'')])"
    by simp
  have h2: "(\<lambda>s. Inr (JArray [JObject [(''name'', JString ''a'')], JObject [(''name'', JString ''b'')]])
         :: string + int json)
      (getCurrentData (initial_upload_form\<lparr>u_activeTab := Metrics, u_metricsData := ''[..]''\<rparr>)) =
      Inr (JArray [JObject [(''name'', JString ''a'')], JObject [(''name'', JString ''b'')]])"
    by simp
  from upload_array_normalization
      [where parse = "\<lambda>s. Inr (JObject [(''name'', JString ''x'')]) :: string + int json"
         and api = "\<lambda>rq. Inr (map (\<lambda>item. 0::nat) (up_items rq))" and org = "''org''", OF h1]
    upload_array_normalization
      [where parse = "\<lambda>s. Inr (JArray [JObject [(''name'', JString ''a'')],
           JObject [(''name'', JString ''b'')]]) :: string + int json"
         and api = "\<lambda>rq. Inr (map (\<lambda>item. 0::nat) (up_items rq))" and org = "''org''", OF h2]
  show ?thesis
    by simp
qed

text \<open>
  C5. Parse failure isolation. When \<^verbatim>\<open>JSON.parse\<close> throws on the buffer of the
  active tab, no upload request is sent, the message of the thrown error becomes the error
  message, no success message is set, and all three buffers are what they were.
\<close>

theorem upload_parse_failure:
  assumes "parse (getCurrentData st) = Inl m"
  shows "snd (handleUpload parse api org st) = [] \<and>
         u_error (fst (handleUpload parse api org st)) = Some m \<and>
         u_success (fst (handleUpload parse api org st)) = None \<and>
         u_loading (fst (handleUpload parse api org st)) = False \<and>
         getCurrentData (fst (handleUpload parse api org st)) = getCurrentData st \<and>
         u_tracesData (fst (handleUpload parse api org st)) = u_tracesData st \<and>
         u_metricsData (fst (handleUpload parse api org st)) = u_metricsData st \<and>
         u_logsData (fst (handleUpload parse api org st)) = u_logsData st"
  by (simp add: handleUpload_parse_error [where parse = parse and api = api, OF assms] getCurrentData_def
        split: kind.splits)

theorem upload_parse_failure_witness:
  "snd (handleUpload (\<lambda>s. Inl ''Unexpected token n in JSON at position 1'' :: string + int json)
      (\<lambda>rq. Inr (map (\<lambda>item. 0::nat) (up_items rq))) ''org''
      (initial_upload_form\<lparr>u_tracesData := ''{not json''\<rparr>)) = [] \<and>
   u_error (fst (handleUpload (\<lambda>s. Inl ''Unexpected token n in JSON at position 1'' :: string + int json)
      (\<lambda>rq. Inr (map (\<lambda>item. 0::nat) (up_items rq))) ''org''
      (initial_upload_form\<lparr>u_tracesData := ''{not json''\<rparr>))) =
     Some ''Unexpected token n in JSON at position 1'' \<and>
   u_tracesData (fst (handleUpload (\<lambda>s. Inl ''Unexpected token n in JSON at position 1'' :: string + int json)
      (\<lambda>rq. Inr (map (\<lambda>item. 0::nat) (up_items rq))) ''org''
      (initial_upload_form\<lparr>u_tracesData := ''{not json''\<rparr>))) = ''{not json''"
proof -
  have h: "(\<lambda>s. Inl ''Unexpected token n in JSON at position 1'' :: string + int json)
      (getCurrentData (initial_upload_form\<lparr>u_tracesData := ''{not json''\<rparr>)) =
      Inl ''Unexpected token n in JSON at position 1''"
    by simp
  from upload_parse_failure
      [where parse = "\<lambda>s. Inl ''Unexpected token n in JSON at position 1'' :: string + int json"
         and api = "\<lambda>rq. Inr (map (\<lambda>item. 0::nat) (up_items rq))" and org = "''org''", OF h]
  show ?thesis
    by (simp add: initial_upload_form_def)
qed

text \<open>
  C6. Rejected upload. When the buffer parses and the upload call rejects, all three
  buffers keep their values, no success message is set, and the error message is the
  message of the thrown \<^verbatim>\<open>Error\<close>, unchanged (the text \<^verbatim>\<open>Upload failed\<close> for a
  thrown value that is not an \<^verbatim>\<open>Error\<close>).
\<close>

theorem upload_failure_keeps_input:
  assumes "parse (getCurrentData st) = Inr v"
    and "api \<lparr>up_kind = u_activeTab st, up_organizationId = org, up_items = as_batch v\<rparr> = Inl err"
  shows "getCurrentData (fst (handleUpload parse api org st)) = getCurrentData st \<and>
         u_tracesData (fst (handleUpload parse api org st)) = u_tracesData st \<and>
         u_metricsData (fst (handleUpload parse api org st)) = u_metricsData st \<and>
         u_logsData (fst (handleUpload parse api org st)) = u_logsData st \<and>
         u_error (fst (handleUpload parse api org st)) =
           Some (thrown_message err ''Upload failed'') \<and>
         (\<forall>m. err = ErrorObj m \<longrightarrow> u_error (fst (handleUpload parse api org st)) = Some m) \<and>
         u_success (fst (handleUpload parse api org st)) = None"
  by (auto simp add: handleUpload_rejected [where parse = parse and api = api, OF assms] getCurrentData_def
        split: kind.splits)

theorem upload_failure_keeps_input_witness:
  "u_logsData (fst (handleUpload (\<lambda>s. Inr (JObject []) :: string + int json)
      (\<lambda>rq. Inl (ErrorObj ''Request failed with status code 422'') :: thrown + nat list) ''org''
      (initial_upload_form\<lparr>u_activeTab := Logs, u_logsData := ''{}''\<rparr>))) = ''{}'' \<and>
   u_error (fst (handleUpload (\<lambda>s. Inr (JObject []) :: string + int json)
      (\<lambda>rq. Inl (ErrorObj ''Request failed with status code 422'') :: thrown + nat list) ''org''
      (initial_upload_form\<lparr>u_activeTab := Logs, u_logsData := ''{}''\<rparr>))) =
     Some ''Request failed with status code 422'' \<and>
   u_success (fst (handleUpload (\<lambda>s. Inr (JObject []) :: string + int json)
      (\<lambda>rq. Inl (ErrorObj ''Request failed with status code 422'') :: thrown + nat list) ''org''
      (initial_upload_form\<lparr>u_activeTab := Logs, u_logsData := ''{}''\<rparr>))) = None"
proof -
  have h1: "(\<lambda>s. Inr (JObject []) :: string + int json)
      (getCurrentData (initial_upload_form\<lparr>u_activeTab := Logs, u_logsData := ''{}''\<rparr>)) =
      Inr (JObject [])"
    by simp
  have h2: "(\<lambda>rq. Inl (ErrorObj ''Request failed with status code 422'') :: thrown + nat list)
      \<lparr>up_kind = u_activeTab (initial_upload_form\<lparr>u_activeTab := Logs, u_logsData := ''{}''\<rparr>),
       up_organizationId = ''org'', up_items = as_batch (JObject [] :: int json)\<rparr> =
      Inl (ErrorObj ''Request failed with status code 422'')"
    by simp
  from upload_failure_keeps_input
      [where parse = "\<lambda>s. Inr (JObject []) :: string + int json"
         and api = "\<lambda>rq. Inl (ErrorObj ''Request failed with status code 422'') :: thrown + nat list",
       OF h1 h2]
  show ?thesis
    by (simp add: initial_upload_form_def)
qed

text \<open>
  C7. Resolved upload. When the buffer parses and the upload call resolves with a list of
  \<open>N\<close> created summaries, the buffer of the active tab becomes empty, the success message
  is \<^verbatim>\<open>Successfully uploaded N trace(s)\<close> (\<^verbatim>\<open>metric(s)\<close>, \<^verbatim>\<open>log(s)\<close>) with
  \<open>N\<close> in decimal, and the buffers of the other two tabs keep their values.
\<close>

theorem upload_success_clears_input:
  assumes "parse (getCurrentData st) = Inr v"
    and "api \<lparr>up_kind = u_activeTab st, up_organizationId = org, up_items = as_batch v\<rparr> = Inr result"
  shows "getCurrentData (fst (handleUpload parse api org st)) = [] \<and>
         u_activeTab (fst (handleUpload parse api org st)) = u_activeTab st \<and>
         (u_activeTab st = Traces \<longrightarrow>
            u_success (fst (handleUpload parse api org st)) =
              Some (''Successfully uploaded '' @ number_to_string (length result) @ '' trace(s)'') \<and>
            u_metricsData (fst (handleUpload parse api org st)) = u_metricsData st \<and>
            u_logsData (fst (handleUpload parse api org st)) = u_logsData st) \<and>
         (u_activeTab st = Metrics \<longrightarrow>
            u_success (fst (handleUpload parse api org st)) =
              Some (''Successfully uploaded '' @ number_to_string (length result) @ '' metric(s)'') \<and>
            u_tracesData (fst (handleUpload parse api org st)) = u_tracesData st \<and>
            u_logsData (fst (handleUpload parse api org st)) = u_logsData st) \<and>
         (u_activeTab st = Logs \<longrightarrow>
            u_success (fst (handleUpload parse api org st)) =
              Some (''Successfully uploaded '' @ number_to_string (length result) @ '' log(s)'') \<and>
            u_tracesData (fst (handleUpload parse api org st)) = u_tracesData st \<and>
            u_metricsData (fst (handleUpload parse api org st)) = u_metricsData st)"
  by (cases "u_activeTab st") (simp_all add: handleUpload_resolved [where parse = parse and api = api, OF assms] getCurrentData_def)

theorem upload_success_clears_input_witness:
  "getCurrentData (fst (handleUpload
      (\<lambda>s. Inr (JArray (replicate 12 (JObject []))) :: string + int json)
      (\<lambda>rq. Inr (map (\<lambda>item. 0::nat) (up_items rq))) ''org''
      (initial_upload_form\<lparr>u_activeTab := Metrics, u_tracesData := ''{}'',
         u_metricsData := ''[..]'', u_logsData := ''[]''\<rparr>))) = [] \<and>
   u_success (fst (handleUpload
      (\<lambda>s. Inr (JArray (replicate 12 (JObject []))) :: string + int json)
      (\<lambda>rq. Inr (map (\<lambda>item. 0::nat) (up_items rq))) ''org''
      (initial_upload_form\<lparr>u_activeTab := Metrics, u_tracesData := ''{}'',
         u_metricsData := ''[..]'', u_logsData := ''[]''\<rparr>))) =
     Some ''Successfully uploaded 12 metric(s)'' \<and>
   u_tracesData (fst (handleUpload
      (\<lambda>s. Inr (JArray (replicate 12 (JObject []))) :: string + int json)
      (\<lambda>rq. Inr (map (\<lambda>item. 0::nat) (up_items rq))) ''org''
      (initial_upload_form\<lparr>u_activeTab := Metrics, u_tracesData := ''{}'',
         u_metricsData := ''[..]'', u_logsData := ''[]''\<rparr>))) = ''{}'' \<and>
   u_logsData (fst (handleUpload
      (\<lambda>s. Inr (JArray (replicate 12 (JObject []))) :: string + int json)
      (\<lambda>rq. Inr (map (\<lambda>item. 0::nat) (up_items rq))) ''org''
      (initial_upload_form\<lparr>u_activeTab := Metrics, u_tracesData := ''{}'',
         u_metricsData := ''[..]'', u_logsData := ''[]''\<rparr>))) = ''[]''"
proof -
  have h1: "(\<lambda>s. Inr (JArray (replicate 12 (JObject []))) :: string + int json)
      (getCurrentData (initial_upload_form\<lparr>u_activeTab := Metrics, u_tracesData := ''{}'',
         u_metricsData := ''[..]'', u_logsData := ''[]''\<rparr>)) =
      Inr (JArray (replicate 12 (JObject [])))"
    by simp
  have h2: "(\<lambda>rq. Inr (map (\<lambda>item. 0::nat) (up_items rq)) :: thrown + nat list)
      \<lparr>up_kind = u_activeTab (initial_upload_form\<lparr>u_activeTab := Metrics, u_tracesData := ''{}'',
         u_metricsData := ''[..]'', u_logsData := ''[]''\<rparr>),
       up_organizationId = ''org'',
       up_items = as_batch (JArray (replicate 12 (JObject [])) :: int json)\<rparr> =
      Inr (replicate 12 0)"
    by (simp add: as_batch_def)
  have n: "number_to_string 12 = ''12''"
    by (simp add: number_to_string.simps)
  from upload_success_clears_input
      [where parse = "\<lambda>s. Inr (JArray (replicate 12 (JObject []))) :: string + int json"
         and api = "\<lambda>rq. Inr (map (\<lambda>item. 0::nat) (up_items rq))", OF h1 h2]
  show ?thesis
    by (simp add: initial_upload_form_def n)
qed

text \<open>
  C10. The first three statements of a submit are \<^verbatim>\<open>setLoading(true)\<close>,
  \<^verbatim>\<open>setError(null)\<close> and \<^verbatim>\<open>setSuccess(null)\<close>, so both messages are null before
  the buffer is parsed and before any upload is sent. When the submit has completed,
  exactly one of the two messages is set: the success message when and only when both the
  parse and the upload succeeded, the error message in every other case.
\<close>

theorem upload_messages_exclusive:
  "take 3 (handleUpload_effects parse api org st) =
     [SetLoading True, SetError None, SetSuccess None] \<and>
   u_error (foldl apply_effect st (take 3 (handleUpload_effects parse api org st))) = None \<and>
   u_success (foldl apply_effect st (take 3 (handleUpload_effects parse api org st))) = None \<and>
   ((u_success (fst (handleUpload parse api org st)) \<noteq> None) \<noteq>
    (u_error (fst (handleUpload parse api org st)) \<noteq> None)) \<and>
   ((u_success (fst (handleUpload parse api org st)) \<noteq> None) =
    (\<exists>v result. parse (getCurrentData st) = Inr v \<and>
       api \<lparr>up_kind = u_activeTab st, up_organizationId = org, up_items = as_batch v\<rparr> =
         Inr result))"
proof -
  have first: "take 3 (handleUpload_effects parse api org st) =
     [SetLoading True, SetError None, SetSuccess None]"
    by (simp add: handleUpload_effects_def)
  have rest: "((u_success (fst (handleUpload parse api org st)) \<noteq> None) \<noteq>
      (u_error (fst (handleUpload parse api org st)) \<noteq> None)) \<and>
     ((u_success (fst (handleUpload parse api org st)) \<noteq> None) =
      (\<exists>v result. parse (getCurrentData st) = Inr v \<and>
         api \<lparr>up_kind = u_activeTab st, up_organizationId = org, up_items = as_batch v\<rparr> =
           Inr result))"
  proof (cases "parse (getCurrentData st)")
    case (Inl m)
    then show ?thesis by (simp add: handleUpload_parse_error)
  next
    case (Inr v)
    show ?thesis
    proof (cases "api \<lparr>up_kind = u_activeTab st, up_organizationId = org, up_items = as_batch v\<rparr>")
      case (Inl err)
      with Inr show ?thesis by (simp add: handleUpload_rejected)
    next
      case r: (Inr result)
      with Inr show ?thesis
        by (cases "u_activeTab st") (simp_all add: handleUpload_resolved)
    qed
  qed
  have e: "u_error (foldl apply_effect st (take 3 (handleUpload_effects parse api org st))) = None"
    unfolding first by simp
  have s: "u_success (foldl apply_effect st (take 3 (handleUpload_effects parse api org st))) = None"
    unfolding first by simp
  show ?thesis
    by (intro conjI first e s rest [THEN conjunct1] rest [THEN conjunct2])
qed

theorem upload_messages_exclusive_witness:
  "((u_success (fst (handleUpload (\<lambda>s. Inr (JObject []) :: string + int json)
      (\<lambda>rq. Inr (map (\<lambda>item. 0::nat) (up_items rq))) ''org''
      (initial_upload_form\<lparr>u_tracesData := ''{}'', u_error := Some ''old''\<rparr>))) \<noteq> None) \<noteq>
    (u_error (fst (handleUpload (\<lambda>s. Inr (JObject []) :: string + int json)
      (\<lambda>rq. Inr (map (\<lambda>item. 0::nat) (up_items rq))) ''org''
      (initial_upload_form\<lparr>u_tracesData := ''{}'', u_error := Some ''old''\<rparr>))) \<noteq> None)) \<and>
   ((u_success (fst (handleUpload (\<lambda>s. Inl ''Unexpected end of JSON input'' :: string + int json)
      (\<lambda>rq. Inr (map (\<lambda>item. 0::nat) (up_items rq))) ''org''
      (initial_upload_form\<lparr>u_tracesData := ''{'', u_success := Some ''old''\<rparr>))) \<noteq> None) \<noteq>
    (u_error (fst (handleUpload (\<lambda>s. Inl ''Unexpected end of JSON input'' :: string + int json)
      (\<lambda>rq. Inr (map (\<lambda>item. 0::nat) (up_items rq))) ''org''
      (initial_upload_form\<lparr>u_tracesData := ''{'', u_success := Some ''old''\<rparr>))) \<noteq> None))"
  by (intro conjI
        upload_messages_exclusive [THEN conjunct2, THEN conjunct2, THEN conjunct2, THEN conjunct1])


section \<open>Properties of the overview\<close>

lemma first_rejection_mem: "\<exists>t'. (t', first_rejection (t, err) rs) \<in> set ((t, err) # rs)"
proof (induction rs arbitrary: t err)
  case Nil
  show ?case by auto
next
  case (Cons r rs)
  obtain t' err' where r: "r = (t', err')" by (cases r)
  show ?case
  proof (cases "t' < t")
    case True
    with Cons [of t' err'] r show ?thesis by auto
  next
    case False
    with Cons [of t err] r show ?thesis by auto
  qed
qed

lemma promise_all3_resolved:
  "snd p1 = Inr a \<Longrightarrow> snd p2 = Inr b \<Longrightarrow> snd p3 = Inr c \<Longrightarrow>
   promise_all3 p1 p2 p3 = Inr (a, b, c)"
  by (cases p1; cases p2; cases p3) (simp add: promise_all3_def)

lemma rejection_empty: "rejection p = [] \<longleftrightarrow> (\<exists>v. snd p = Inr v)"
  by (cases p; cases "snd p") auto

lemma promise_all3_rejected:
  assumes "(\<exists>e. snd p1 = Inl e) \<or> (\<exists>e. snd p2 = Inl e) \<or> (\<exists>e. snd p3 = Inl e)"
  shows "\<exists>t err. promise_all3 p1 p2 p3 = Inl err \<and>
           (t, err) \<in> set (rejection p1 @ rejection p2 @ rejection p3)"
proof -
  from assms have "rejection p1 @ rejection p2 @ rejection p3 \<noteq> []"
    by (auto simp: rejection_empty)
  then obtain t e rs where eq: "rejection p1 @ rejection p2 @ rejection p3 = (t, e) # rs"
    by (cases "rejection p1 @ rejection p2 @ rejection p3") auto
  then have p: "promise_all3 p1 p2 p3 = Inl (first_rejection (t, e) rs)"
    by (simp add: promise_all3_def)
  from first_rejection_mem [of t e rs] eq p show ?thesis
    by metis
qed

text \<open>
  C8. Overview, all or nothing. The fetch sends exactly three list requests, for traces,
  metrics and logs in this order, each with \<^verbatim>\<open>limit = 5\<close>, without filters and
  without a \<^verbatim>\<open>skip\<close>, for which the API client's default is 0. When all three
  resolve, the three responses (items and totals) are stored. When at least one rejects,
  the reason of one rejected call becomes the single error message, and none of the three
  result states is written: each keeps the value it had, which is null on mount.
\<close>

theorem overview_all_or_nothing:
  "snd (fetchOverviewData listTraces listMetrics listLogs org st) =
     [overview_request Traces org, overview_request Metrics org, overview_request Logs org] \<and>
   map rq_kind (snd (fetchOverviewData listTraces listMetrics listLogs org st)) =
     [Traces, Metrics, Logs] \<and>
   (\<forall>rq \<in> set (snd (fetchOverviewData listTraces listMetrics listLogs org st)).
      rq_limit rq = Some 5 \<and> rq_skip rq = None \<and> effective_skip rq = 0 \<and>
      rq_tagIds rq = None \<and> rq_nameSearch rq = None \<and> rq_severity rq = None) \<and>
   (snd (listTraces (overview_request Traces org)) = Inr traces \<and>
    snd (listMetrics (overview_request Metrics org)) = Inr metrics \<and>
    snd (listLogs (overview_request Logs org)) = Inr logs \<longrightarrow>
      fst (fetchOverviewData listTraces listMetrics listLogs org st) =
        st\<lparr>o_tracesData := Some traces, o_metricsData := Some metrics,
           o_logsData := Some logs, o_loading := False\<rparr>) \<and>
   ((\<exists>e. snd (listTraces (overview_request Traces org)) = Inl e) \<or>
    (\<exists>e. snd (listMetrics (overview_request Metrics org)) = Inl e) \<or>
    (\<exists>e. snd (listLogs (overview_request Logs org)) = Inl e) \<longrightarrow>
      (\<exists>t err.
          (t, err) \<in> set (rejection (listTraces (overview_request Traces org)) @
                          rejection (listMetrics (overview_request Metrics org)) @
                          rejection (listLogs (overview_request Logs org))) \<and>
          fst (fetchOverviewData listTraces listMetrics listLogs org st) =
            st\<lparr>o_loading := False,
               o_error := Some (thrown_message err ''Failed to load telemetry data'')\<rparr>) \<and>
      o_tracesData (fst (fetchOverviewData listTraces listMetrics listLogs org st)) =
        o_tracesData st \<and>
      o_metricsData (fst (fetchOverviewData listTraces listMetrics listLogs org st)) =
        o_metricsData st \<and>
      o_logsData (fst (fetchOverviewData listTraces listMetrics listLogs org st)) =
        o_logsData st)"
proof (intro conjI impI)
  show sent: "snd (fetchOverviewData listTraces listMetrics listLogs org st) =
     [overview_request Traces org, overview_request Metrics org, overview_request Logs org]"
    by (simp add: fetchOverviewData_def Let_def split: sum.splits prod.splits)
  show "map rq_kind (snd (fetchOverviewData listTraces listMetrics listLogs org st)) =
     [Traces, Metrics, Logs]"
    by (simp add: sent overview_request_def)
  show "\<forall>rq \<in> set (snd (fetchOverviewData listTraces listMetrics listLogs org st)).
      rq_limit rq = Some 5 \<and> rq_skip rq = None \<and> effective_skip rq = 0 \<and>
      rq_tagIds rq = None \<and> rq_nameSearch rq = None \<and> rq_severity rq = None"
    by (simp add: sent overview_request_def effective_skip_def)
next
  assume "snd (listTraces (overview_request Traces org)) = Inr traces \<and>
    snd (listMetrics (overview_request Metrics org)) = Inr metrics \<and>
    snd (listLogs (overview_request Logs org)) = Inr logs"
  then have "promise_all3 (listTraces (overview_request Traces org))
      (listMetrics (overview_request Metrics org)) (listLogs (overview_request Logs org)) =
      Inr (traces, metrics, logs)"
    by (simp add: promise_all3_resolved)
  then show "fst (fetchOverviewData listTraces listMetrics listLogs org st) =
        st\<lparr>o_tracesData := Some traces, o_metricsData := Some metrics,
           o_logsData := Some logs, o_loading := False\<rparr>"
    by (simp add: fetchOverviewData_def Let_def)
next
  assume a: "(\<exists>e. snd (listTraces (overview_request Traces org)) = Inl e) \<or>
    (\<exists>e. snd (listMetrics (overview_request Metrics org)) = Inl e) \<or>
    (\<exists>e. snd (listLogs (overview_request Logs org)) = Inl e)"
  from promise_all3_rejected [OF a] obtain t err where
    p: "promise_all3 (listTraces (overview_request Traces org))
      (listMetrics (overview_request Metrics org)) (listLogs (overview_request Logs org)) = Inl err"
    and m: "(t, err) \<in> set (rejection (listTraces (overview_request Traces org)) @
                          rejection (listMetrics (overview_request Metrics org)) @
                          rejection (listLogs (overview_request Logs org)))"
    by blast
  from p have eq: "fst (fetchOverviewData listTraces listMetrics listLogs org st) =
            st\<lparr>o_loading := False,
               o_error := Some (thrown_message err ''Failed to load telemetry data'')\<rparr>"
    by (simp add: fetchOverviewData_def Let_def)
  from m eq show "\<exists>t err.
          (t, err) \<in> set (rejection (listTraces (overview_request Traces org)) @
                          rejection (listMetrics (overview_request Metrics org)) @
                          rejection (listLogs (overview_request Logs org))) \<and>
          fst (fetchOverviewData listTraces listMetrics listLogs org st) =
            st\<lparr>o_loading := False,
               o_error := Some (thrown_message err ''Failed to load telemetry data'')\<rparr>"
    by blast
  show "o_tracesData (fst (fetchOverviewData listTraces listMetrics listLogs org st)) =
        o_tracesData st"
    and "o_metricsData (fst (fetchOverviewData listTraces listMetrics listLogs org st)) =
        o_metricsData st"
    and "o_logsData (fst (fetchOverviewData listTraces listMetrics listLogs org st)) =
        o_logsData st"
    by (simp_all add: eq)
qed

theorem overview_all_or_nothing_witness:
  "snd (fetchOverviewData
      (\<lambda>rq. (3, Inr \<lparr>rs_items = [1::nat], rs_total = 1, rs_skip = 0, rs_limit = 5\<rparr>))
      (\<lambda>rq. (2, Inl (ErrorObj ''Request failed with status code 500'')) :: nat list_response settled)
      (\<lambda>rq. (1, Inr \<lparr>rs_items = [2::nat], rs_total = 1, rs_skip = 0, rs_limit = 5\<rparr>))
      ''org'' initial_overview) =
     [overview_request Traces ''org'', overview_request Metrics ''org'',
      overview_request Logs ''org''] \<and>
   fst (fetchOverviewData
      (\<lambda>rq. (3, Inr \<lparr>rs_items = [1::nat], rs_total = 1, rs_skip = 0, rs_limit = 5\<rparr>))
      (\<lambda>rq. (2, Inl (ErrorObj ''Request failed with status code 500'')) :: nat list_response settled)
      (\<lambda>rq. (1, Inr \<lparr>rs_items = [2::nat], rs_total = 1, rs_skip = 0, rs_limit = 5\<rparr>))
      ''org'' initial_overview) =
     \<lparr>o_tracesData = None, o_metricsData = None, o_logsData = None, o_loading = False,
      o_error = Some ''Request failed with status code 500''\<rparr>"
  using overview_all_or_nothing
    [of "\<lambda>rq. (3, Inr \<lparr>rs_items = [1::nat], rs_total = 1, rs_skip = 0, rs_limit = 5\<rparr>)"
        "\<lambda>rq. (2, Inl (ErrorObj ''Request failed with status code 500'')) :: nat list_response settled"
        "\<lambda>rq. (1, Inr \<lparr>rs_items = [2::nat], rs_total = 1, rs_skip = 0, rs_limit = 5\<rparr>)"
        "''org''" initial_overview]
  by (auto simp add: initial_overview_def)

end
